theory Spec2Isabelle
  imports Complex_Main
begin

section \<open>Messages, errors and the session state\<close>

text \<open>
  The program is a Streamlit chat client (\<^verbatim>\<open>deepseek-ai.py\<close>). A message is the Python
  dict \<^verbatim>\<open>{"role": role, "content": content}\<close>. Python strings are modelled as
  \<^typ>\<open>string\<close>; one \<^typ>\<open>char\<close> stands for one Python character, so \<^const>\<open>length\<close>
  and \<^const>\<open>take\<close> count what \<^verbatim>\<open>len\<close> and slicing count.
\<close>

record message =
  role :: string
  content :: string

text \<open>
  The exceptions the modelled code can raise by itself: reading an attribute of
  \<^verbatim>\<open>st.session_state\<close> that was never set, and \<^verbatim>\<open>pop(0)\<close> or \<^verbatim>\<open>[0]\<close> on an
  empty list.
\<close>

datatype error = AttributeError | IndexError

text \<open>
  A \<^verbatim>\<open>ChatMemory\<close> object holds \<^verbatim>\<open>max_messages\<close> (a Python int: unbounded,
  possibly zero or negative) and works on two entries of the process-wide
  \<^verbatim>\<open>st.session_state\<close>: \<^verbatim>\<open>messages\<close> (the displayed history) and
  \<^verbatim>\<open>full_history\<close> (the context window). An entry that is not in the session state
  is \<^const>\<open>None\<close>. The two entries are always distinct list objects, so there is no
  aliasing between them.
\<close>

record ChatMemory =
  max_messages :: int
  messages :: "message list option"
  full_history :: "message list option"

text \<open>
  The two constants of the configuration: the default of \<^verbatim>\<open>max_messages\<close> in the
  constructor, and the cap on the text taken from an uploaded file.
\<close>

definition MAX_CONTEXT_MESSAGES :: int where
  "MAX_CONTEXT_MESSAGES = 8"

definition MAX_FILE_CONTENT :: nat where
  "MAX_FILE_CONTENT = 1000"

section \<open>ChatMemory\<close>

text \<open>
  \<^verbatim>\<open>initialize_session\<close>: only when \<^verbatim>\<open>"messages"\<close> is not in the session state,
  both entries are set to fresh empty lists.
\<close>

definition initialize_session :: "ChatMemory \<Rightarrow> ChatMemory" where
  "initialize_session self =
     (if messages self = None
      then self\<lparr>messages := Some [], full_history := Some []\<rparr>
      else self)"

text \<open>
  \<^verbatim>\<open>__init__\<close>: stores the bound and calls \<^verbatim>\<open>initialize_session\<close>. The two
  further arguments are the entries of the session state the constructor finds.
\<close>

definition ChatMemory_init ::
    "int \<Rightarrow> message list option \<Rightarrow> message list option \<Rightarrow> ChatMemory" where
  "ChatMemory_init n ms fh =
     initialize_session \<lparr>max_messages = n, messages = ms, full_history = fh\<rparr>"

text \<open>
  The loop of \<^verbatim>\<open>add_message\<close>:
  \<^verbatim>\<open>while len(full_history) > self.max_messages: removed = full_history.pop(0)\<close>.
  The result is the sequence of values \<^verbatim>\<open>removed\<close> took, in the order of removal,
  the list that is left, and the exception, if any: with a negative bound the test
  still succeeds on the empty list and \<^verbatim>\<open>pop(0)\<close> raises \<^verbatim>\<open>IndexError\<close>.
\<close>

fun trim :: "int \<Rightarrow> message list \<Rightarrow> message list \<times> message list \<times> error option" where
  "trim n [] =
     (if int (length ([] :: message list)) > n then ([], [], Some IndexError)
      else ([], [], None))"
| "trim n (x # xs) =
     (if int (length (x # xs)) > n
      then (case trim n xs of (removed, rest, e) \<Rightarrow> (x # removed, rest, e))
      else ([], x # xs, None))"

text \<open>
  \<^verbatim>\<open>add_message\<close>: appends to \<^verbatim>\<open>messages\<close>, appends to \<^verbatim>\<open>full_history\<close>, then
  trims \<^verbatim>\<open>full_history\<close>. The result is the exception or the normal return, and the
  state the call leaves behind (also when it raises: the appends that were done stay).
\<close>

definition add_message ::
    "string \<Rightarrow> string \<Rightarrow> ChatMemory \<Rightarrow> (error + unit) \<times> ChatMemory" where
  "add_message r c self =
     (case messages self of
        None \<Rightarrow> (Inl AttributeError, self)
      | Some ms \<Rightarrow>
          (let s1 = self\<lparr>messages := Some (ms @ [\<lparr>role = r, content = c\<rparr>])\<rparr> in
           case full_history s1 of
             None \<Rightarrow> (Inl AttributeError, s1)
           | Some fh \<Rightarrow>
               (case trim (max_messages s1) (fh @ [\<lparr>role = r, content = c\<rparr>]) of
                  (removed, rest, e) \<Rightarrow>
                    (case e of None \<Rightarrow> Inr () | Some err \<Rightarrow> Inl err,
                     s1\<lparr>full_history := Some rest\<rparr>))))"

text \<open>
  Python's slice \<^verbatim>\<open>xs[i:]\<close>: a negative start counts from the end, and a start
  before the beginning is clamped to it.
\<close>

definition slice_from :: "int \<Rightarrow> 'a list \<Rightarrow> 'a list" where
  "slice_from i xs =
     (if i < 0 then drop (nat (max 0 (int (length xs) + i))) xs
      else drop (nat i) xs)"

text \<open>
  \<^verbatim>\<open>get_context\<close>:
  \<^verbatim>\<open>[{"role": "system", "content": system_prompt}] + full_history[-self.max_messages:]\<close>.
  It is written in the same state-passing form as the other methods, so that what it
  leaves of the state is part of the model.
\<close>

definition get_context ::
    "string \<Rightarrow> ChatMemory \<Rightarrow> (error + message list) \<times> ChatMemory" where
  "get_context system_prompt self =
     (case full_history self of
        None \<Rightarrow> (Inl AttributeError, self)
      | Some fh \<Rightarrow>
          (Inr (\<lparr>role = ''system'', content = system_prompt\<rparr>
                 # slice_from (- max_messages self) fh),
           self))"

text \<open>\<^verbatim>\<open>clear_memory\<close>: both entries are set to fresh empty lists.\<close>

definition clear_memory :: "ChatMemory \<Rightarrow> ChatMemory" where
  "clear_memory self = self\<lparr>messages := Some [], full_history := Some []\<rparr>"

text \<open>
  A caller making a sequence of \<^verbatim>\<open>add_message\<close> calls, each with its role and
  content; the result is the state after the last call.
\<close>

definition add_messages :: "(string \<times> string) list \<Rightarrow> ChatMemory \<Rightarrow> ChatMemory" where
  "add_messages calls self = fold (\<lambda>(r, c) s. snd (add_message r c s)) calls self"

text \<open>A caller making any sequence of the three mutating operations.\<close>

datatype operation = Initialize | AddMessage string string | Clear

fun apply_operation :: "operation \<Rightarrow> ChatMemory \<Rightarrow> ChatMemory" where
  "apply_operation Initialize s = initialize_session s"
| "apply_operation (AddMessage r c) s = snd (add_message r c s)"
| "apply_operation Clear s = clear_memory s"

definition apply_operations :: "operation list \<Rightarrow> ChatMemory \<Rightarrow> ChatMemory" where
  "apply_operations ops s = fold apply_operation ops s"

section \<open>Uploaded files\<close>

text \<open>
  An uploaded file, as \<^verbatim>\<open>process_uploaded_files\<close> uses it: its \<^verbatim>\<open>name\<close>, its
  \<^verbatim>\<open>type\<close>, and what the two libraries make of its bytes. \<open>pdf_pages\<close> is the result
  of \<^verbatim>\<open>page.extract_text()\<close> for each page of \<^verbatim>\<open>pdfplumber.open(file)\<close>
  (\<^const>\<open>None\<close> for a page where it returns \<^verbatim>\<open>None\<close>), and \<open>decoded\<close> is the result
  of \<^verbatim>\<open>raw_data.decode(encoding, errors="replace")\<close> after \<^verbatim>\<open>chardet.detect\<close>; each
  is \<^const>\<open>None\<close> when that path raises.
\<close>

record uploaded_file =
  file_name :: string
  file_type :: string
  pdf_pages :: "string option list option"
  decoded :: "string option"

text \<open>The loop \<^verbatim>\<open>for page in pdf.pages: text += page.extract_text() or ""\<close>.\<close>

fun pages_text :: "string option list \<Rightarrow> string" where
  "pages_text [] = ''''"
| "pages_text (p # ps) = (case p of None \<Rightarrow> '''' | Some t \<Rightarrow> t) @ pages_text ps"

text \<open>
  The body of the \<^verbatim>\<open>try\<close> for one file: the string appended to
  \<^verbatim>\<open>processed_content\<close>, or \<^const>\<open>None\<close> when an exception is caught (the file is
  reported and skipped).
\<close>

definition process_file :: "uploaded_file \<Rightarrow> string option" where
  "process_file f =
     (if file_type f = ''application/pdf''
      then (case pdf_pages f of
              None \<Rightarrow> None
            | Some ps \<Rightarrow>
                Some (''PDF_CONTENT:'' @ file_name f @ '': ''
                      @ take MAX_FILE_CONTENT (pages_text ps) @ ''...''))
      else (case decoded f of
              None \<Rightarrow> None
            | Some c \<Rightarrow>
                Some (''FILE_CONTENT:'' @ file_name f @ '': ''
                      @ take MAX_FILE_CONTENT c @ ''...'')))"

fun processed_content :: "uploaded_file list \<Rightarrow> string list" where
  "processed_content [] = []"
| "processed_content (f # fs) =
     (case process_file f of
        None \<Rightarrow> processed_content fs
      | Some s \<Rightarrow> s # processed_content fs)"

text \<open>Python's \<^verbatim>\<open>sep.join(xs)\<close>.\<close>

fun join :: "string \<Rightarrow> string list \<Rightarrow> string" where
  "join sep [] = ''''"
| "join sep [x] = x"
| "join sep (x # y # ys) = x @ sep @ join sep (y # ys)"

definition process_uploaded_files :: "uploaded_file list \<Rightarrow> string" where
  "process_uploaded_files files = join [CHR 0x0A] (processed_content files)"

section \<open>The chat client\<close>

text \<open>
  The JSON body of a reply, as far as \<^verbatim>\<open>query_deepseek\<close> reads it: the
  \<^verbatim>\<open>"choices"\<close> list when the key is present, each choice with its \<^verbatim>\<open>"message"\<close>
  object when present, and that with its \<^verbatim>\<open>"content"\<close> string when present.
\<close>

datatype message_json = MessageJson "string option"

datatype choice_json = ChoiceJson "message_json option"

record response_data =
  choices :: "choice_json list option"

record response =
  status_code :: int
  json :: response_data

text \<open>
  What \<^verbatim>\<open>requests.post\<close> does: it raises a \<^verbatim>\<open>RequestException\<close> (no connection,
  timeout, ...) or returns a response.
\<close>

datatype post_result = RequestException | Returned response

record payload =
  payload_model :: string
  payload_messages :: "message list"
  payload_temperature :: real

text \<open>
  \<^verbatim>\<open>response_data.get("choices", [{}])[0].get("message", {}).get("content", "")\<close>:
  a missing key gives the default, an empty \<^verbatim>\<open>choices\<close> list raises.
\<close>

definition assistant_response :: "response_data \<Rightarrow> error + string" where
  "assistant_response d =
     (case choices d of
        None \<Rightarrow> Inr ''''
      | Some [] \<Rightarrow> Inl IndexError
      | Some (ChoiceJson None # _) \<Rightarrow> Inr ''''
      | Some (ChoiceJson (Some (MessageJson None)) # _) \<Rightarrow> Inr ''''
      | Some (ChoiceJson (Some (MessageJson (Some c))) # _) \<Rightarrow> Inr c)"

text \<open>
  \<^verbatim>\<open>query_deepseek\<close>. The endpoint is the parameter \<open>post\<close>, from the payload sent to
  the outcome of \<^verbatim>\<open>requests.post\<close>. \<^verbatim>\<open>raise_for_status\<close> raises an \<^verbatim>\<open>HTTPError\<close>
  (a \<^verbatim>\<open>RequestException\<close>) for a status from 400 to 599; the handler returns
  \<^verbatim>\<open>None\<close>. A status other than 200 that is no error falls through to the final
  \<^verbatim>\<open>return None\<close>. Other exceptions are not handled and leave the function. The
  result is the exception, or the returned value (\<^const>\<open>None\<close> for Python's
  \<^verbatim>\<open>None\<close>), and the state of the memory afterwards.

  Taken as given: the API key is in the session state (\<^verbatim>\<open>main_interface\<close> checks it
  before the call), and the body of a status 200 reply is a JSON object whose entries,
  where present, have the types above. A body that \<^verbatim>\<open>response.json()\<close> cannot parse,
  and an entry of another JSON type (a \<^verbatim>\<open>null\<close> content, say), are outside the model;
  what is proved about a status 200 reply is proved for the bodies of these types. The
  logging and the Streamlit widgets are not part of the model; \<open>temperature\<close> is only
  passed on into the payload.
\<close>

definition query_deepseek ::
    "string \<Rightarrow> string \<Rightarrow> ChatMemory \<Rightarrow> string \<Rightarrow> real \<Rightarrow> (payload \<Rightarrow> post_result)
     \<Rightarrow> (error + response_data option) \<times> ChatMemory" where
  "query_deepseek prompt system_prompt memory model temperature post =
     (case get_context system_prompt memory of
        (Inl e, m0) \<Rightarrow> (Inl e, m0)
      | (Inr ctx, m0) \<Rightarrow>
          (case post \<lparr>payload_model = model,
                       payload_messages = ctx @ [\<lparr>role = ''user'', content = prompt\<rparr>],
                       payload_temperature = temperature\<rparr> of
             RequestException \<Rightarrow> (Inr None, m0)
           | Returned resp \<Rightarrow>
               if 400 \<le> status_code resp \<and> status_code resp < 600 then (Inr None, m0)
               else if status_code resp = 200 then
                 (case assistant_response (json resp) of
                    Inl e \<Rightarrow> (Inl e, m0)
                  | Inr reply \<Rightarrow>
                      (case add_message ''user'' prompt m0 of
                         (Inl e, m1) \<Rightarrow> (Inl e, m1)
                       | (Inr _, m1) \<Rightarrow>
                           (case add_message ''assistant'' reply m1 of
                              (Inl e, m2) \<Rightarrow> (Inl e, m2)
                            | (Inr _, m2) \<Rightarrow> (Inr (Some (json resp)), m2))))
               else (Inr None, m0)))"

section \<open>The invariant relating the two lists\<close>

text \<open>
  For a bound \<open>n\<close>: both lists exist, the window is the displayed list without its first
  \<open>length displayed - n\<close> entries (the whole list when there are at most \<open>n\<close>, the
  empty list when \<open>n\<close> is not positive), and the bound of the memory is \<open>n\<close>.
\<close>

definition window_invariant :: "int \<Rightarrow> ChatMemory \<Rightarrow> bool" where
  "window_invariant n s =
     (case (messages s, full_history s) of
        (Some d, Some w) \<Rightarrow> w = drop (length d - nat n) d \<and> max_messages s = n
      | _ \<Rightarrow> False)"

section \<open>Properties of the trimming loop\<close>

lemma trim_removed_rest: "fst (trim n xs) @ fst (snd (trim n xs)) = xs"
  by (induction xs) (auto split: prod.splits)

lemma trim_rest: "fst (snd (trim n xs)) = drop (length xs - nat n) xs"
  by (induction xs) (auto split: prod.splits simp: Suc_diff_le nat_le_iff)

lemma trim_removed: "fst (trim n xs) = take (length xs - nat n) xs"
  by (induction xs) (auto split: prod.splits simp: Suc_diff_le nat_le_iff)

lemma trim_error: "snd (snd (trim n xs)) = (if n < 0 then Some IndexError else None)"
  by (induction xs) (auto split: prod.splits)

section \<open>Properties of the memory operations\<close>

lemma init_fresh:
  "ChatMemory_init n None None = \<lparr>max_messages = n, messages = Some [], full_history = Some []\<rparr>"
  by (simp add: ChatMemory_init_def initialize_session_def)

lemma add_message_initialized:
  "messages s = Some ms \<Longrightarrow> full_history s = Some fh \<Longrightarrow>
   add_message r c s =
     (if max_messages s < 0 then Inl IndexError else Inr (),
      s\<lparr>messages := Some (ms @ [\<lparr>role = r, content = c\<rparr>]),
        full_history := Some (drop (Suc (length fh) - nat (max_messages s))
                                (fh @ [\<lparr>role = r, content = c\<rparr>]))\<rparr>)"
  using trim_rest [of "max_messages s" "fh @ [\<lparr>role = r, content = c\<rparr>]"]
        trim_error [of "max_messages s" "fh @ [\<lparr>role = r, content = c\<rparr>]"]
  by (auto simp: add_message_def Let_def split: prod.splits)

lemma add_message_snd:
  "messages s = Some ms \<Longrightarrow> full_history s = Some fh \<Longrightarrow>
   snd (add_message r c s) =
      s\<lparr>messages := Some (ms @ [\<lparr>role = r, content = c\<rparr>]),
        full_history := Some (drop (Suc (length fh) - nat (max_messages s))
                                (fh @ [\<lparr>role = r, content = c\<rparr>]))\<rparr>"
  by (simp add: add_message_initialized)

lemma add_messages_Nil: "add_messages [] s = s"
  by (simp add: add_messages_def)

lemma add_messages_Cons:
  "add_messages ((r, c) # cs) s = add_messages cs (snd (add_message r c s))"
  by (simp add: add_messages_def)

lemma add_messages_snoc:
  "add_messages (cs @ [(r, c)]) s = snd (add_message r c (add_messages cs s))"
  by (simp add: add_messages_def)

lemma add_messages_displayed:
  "messages s = Some ms \<Longrightarrow> full_history s = Some fh \<Longrightarrow>
   messages (add_messages calls s) = Some (ms @ map (\<lambda>(r, c). \<lparr>role = r, content = c\<rparr>) calls)
   \<and> full_history (add_messages calls s) \<noteq> None"
proof (induction calls arbitrary: s ms fh)
  case Nil
  then show ?case by (simp add: add_messages_Nil)
next
  case (Cons a calls)
  obtain r c where a: "a = (r, c)" by (cases a)
  show ?case using Cons.prems a
    Cons.IH [of "snd (add_message r c s)" "ms @ [\<lparr>role = r, content = c\<rparr>]"]
    by (simp add: add_messages_Cons add_message_snd)
qed

lemma slice_from_pos: "0 < n \<Longrightarrow> slice_from (- n) xs = drop (length xs - nat n) xs"
  by (auto simp: slice_from_def max_def nat_diff_distrib' intro: arg_cong2[where f=drop])

lemma slice_from_Nil: "slice_from i [] = []"
  by (simp add: slice_from_def)

text \<open>
  The general behaviour of \<^verbatim>\<open>get_context\<close> for a positive bound: the system message,
  then the last \<open>max_messages\<close> entries of the window.
\<close>

lemma get_context_positive:
  "full_history s = Some fh \<Longrightarrow> 0 < max_messages s \<Longrightarrow>
   get_context p s =
     (Inr (\<lparr>role = ''system'', content = p\<rparr> # drop (length fh - nat (max_messages s)) fh), s)"
  by (simp add: get_context_def slice_from_pos)

text \<open>
  C7. After \<^verbatim>\<open>clear_memory\<close>, on any state, the displayed list and the window are both
  empty, \<^verbatim>\<open>get_context(p)\<close> returns exactly the one system message for every \<open>p\<close>,
  and \<open>max_messages\<close> is what it was before.
\<close>

theorem clear_memory_resets:
  "messages (clear_memory s) = Some []
   \<and> full_history (clear_memory s) = Some []
   \<and> (\<forall>p. fst (get_context p (clear_memory s)) = Inr [\<lparr>role = ''system'', content = p\<rparr>])
   \<and> max_messages (clear_memory s) = max_messages s"
  by (simp add: clear_memory_def get_context_def slice_from_Nil)

text \<open>
  C8. \<^verbatim>\<open>get_context\<close> is read-only: the state after the call is the state before it
  (displayed list, window and \<open>max_messages\<close>), and a second call with the same prompt,
  made right after the first, returns the same result.
\<close>

theorem get_context_pure:
  "snd (get_context p s) = s
   \<and> messages (snd (get_context p s)) = messages s
   \<and> full_history (snd (get_context p s)) = full_history s
   \<and> max_messages (snd (get_context p s)) = max_messages s
   \<and> fst (get_context p (snd (get_context p s))) = fst (get_context p s)"
proof -
  have "snd (get_context p s) = s"
    by (simp add: get_context_def split: option.splits)
  then show ?thesis by simp
qed

text \<open>
  C5. Starting from an empty memory (a fresh session, any bound), after any sequence of
  \<^verbatim>\<open>add_message\<close> calls the displayed list holds exactly the messages of the calls, in
  order: its length is the number of calls made, and one more call appends its own
  role and content at the end.
\<close>

theorem displayed_never_trimmed:
  "messages (add_messages calls (ChatMemory_init n None None))
     = Some (map (\<lambda>(r, c). \<lparr>role = r, content = c\<rparr>) calls)
   \<and> map_option length (messages (add_messages calls (ChatMemory_init n None None)))
     = Some (length calls)
   \<and> messages (add_messages (calls @ [(r, c)]) (ChatMemory_init n None None))
     = Some (map (\<lambda>(r, c). \<lparr>role = r, content = c\<rparr>) calls @ [\<lparr>role = r, content = c\<rparr>])"
proof -
  have "messages (add_messages cs (ChatMemory_init n None None))
          = Some (map (\<lambda>(r, c). \<lparr>role = r, content = c\<rparr>) cs)" for cs
    using add_messages_displayed [of "ChatMemory_init n None None" "[]" "[]" cs]
    by (simp add: init_fresh)
  from this [of calls] this [of "calls @ [(r, c)]"] show ?thesis by simp
qed

section \<open>The bound on the window\<close>

lemma add_message_max_messages: "max_messages (snd (add_message r c s)) = max_messages s"
  by (simp add: add_message_def Let_def split: option.splits prod.splits)

lemma add_messages_max_messages: "max_messages (add_messages calls s) = max_messages s"
  by (induction calls rule: rev_induct)
     (auto simp: add_messages_Nil add_messages_snoc add_message_max_messages)

lemma add_messages_bounded:
  "messages s = Some ms \<Longrightarrow> full_history s = Some fh \<Longrightarrow> 0 \<le> max_messages s \<Longrightarrow>
   calls \<noteq> [] \<Longrightarrow>
   \<exists>w. full_history (add_messages calls s) = Some w \<and> int (length w) \<le> max_messages s"
proof (induction calls rule: rev_induct)
  case Nil
  then show ?case by simp
next
  case (snoc a calls)
  obtain r c where a: "a = (r, c)" by (cases a)
  let ?t = "add_messages calls s"
  obtain d where d: "messages ?t = Some d"
    using add_messages_displayed [OF snoc.prems(1,2), of calls] by blast
  obtain w where w: "full_history ?t = Some w"
    using add_messages_displayed [OF snoc.prems(1,2), of calls] by blast
  have n: "max_messages ?t = max_messages s"
    by (rule add_messages_max_messages)
  show ?case
    using snoc.prems(3) by (simp add: a add_messages_snoc add_message_snd [OF d w] n)
qed

text \<open>With a bound that is not negative, no call of a sequence raises.\<close>

lemma add_messages_returns:
  assumes "messages s = Some ms" and "full_history s = Some fh" and "0 \<le> max_messages s"
  shows "fst (add_message r c (add_messages calls s)) = Inr ()"
proof -
  let ?t = "add_messages calls s"
  obtain d where d: "messages ?t = Some d"
    using add_messages_displayed [OF assms(1,2), of calls] by blast
  obtain w where w: "full_history ?t = Some w"
    using add_messages_displayed [OF assms(1,2), of calls] by blast
  show ?thesis
    using assms(3) by (simp add: add_message_initialized [OF d w] add_messages_max_messages)
qed

text \<open>
  C2 (as amended). On a memory whose two lists exist and whose bound \<open>max_messages\<close> is
  not negative, after each call of any sequence of \<^verbatim>\<open>add_message\<close> calls (after the
  first \<open>k\<close> calls, for every \<open>k\<close> from 1 to the length of the sequence) the window has
  at most \<open>max_messages\<close> entries.
\<close>

theorem window_bounded:
  assumes "messages s = Some ms" and "full_history s = Some fh" and "0 \<le> max_messages s"
    and "0 < k" and "k \<le> length calls"
  shows "\<exists>w. full_history (add_messages (take k calls) s) = Some w
              \<and> int (length w) \<le> max_messages s"
proof -
  have "take k calls \<noteq> []" using assms(4,5) by auto
  then show ?thesis using assms(1,2,3) by (rule add_messages_bounded [rotated 3])
qed

text \<open>The theorem at the scenario of the specification: bound 2, three calls.\<close>

theorem window_bounded_witness:
  "full_history (add_messages (take 3 [(''user'', ''a''), (''assistant'', ''b''), (''user'', ''c'')])
      (ChatMemory_init 2 None None)) = Some [\<lparr>role = ''assistant'', content = ''b''\<rparr>, \<lparr>role = ''user'', content = ''c''\<rparr>]
   \<and> int (length [\<lparr>role = ''assistant'', content = ''b''\<rparr>, \<lparr>role = ''user'', content = ''c''\<rparr>]) \<le> max_messages (ChatMemory_init 2 None None)"
  using window_bounded [of "ChatMemory_init 2 None None" "[]" "[]" 3
      "[(''user'', ''a''), (''assistant'', ''b''), (''user'', ''c'')]"]
  by (simp add: init_fresh add_messages_Cons add_messages_Nil add_message_snd)

text \<open>
  The claim as stated, for every bound, fails at the bound \<open>-1\<close>: the loop empties the
  window, tests \<^verbatim>\<open>0 > -1\<close> once more and \<^verbatim>\<open>pop(0)\<close> raises; the window the call
  leaves has length 0, which is not at most \<open>-1\<close>.
\<close>

theorem window_bounded_counterexample:
  "fst (add_message ''user'' ''a'' (ChatMemory_init (- 1) None None)) = Inl IndexError
   \<and> full_history (snd (add_message ''user'' ''a'' (ChatMemory_init (- 1) None None))) = Some []
   \<and> max_messages (snd (add_message ''user'' ''a'' (ChatMemory_init (- 1) None None))) = - 1
   \<and> \<not> int (length ([] :: message list)) \<le> - 1"
  by (simp add: init_fresh add_message_initialized)

section \<open>Eviction order\<close>

text \<open>
  C4. Eviction is first in, first out. On a memory whose two lists exist, the values
  removed by the loop of an \<^verbatim>\<open>add_message\<close> call are, in the order of removal, the
  first entries of the window with the new message appended, and the window the call
  leaves is the rest, in order; nothing is removed unless the window with the new
  message exceeds \<open>max_messages\<close>. With \<open>max_messages = 2\<close>, after the calls
  \<open>("user","a")\<close>, \<open>("assistant","b")\<close>, \<open>("user","c")\<close> on a fresh memory the window is
  \<open>[("assistant","b"), ("user","c")]\<close>.
\<close>

theorem add_message_fifo:
  assumes "messages s = Some ms" and "full_history s = Some w"
  shows "fst (trim (max_messages s) (w @ [\<lparr>role = r, content = c\<rparr>]))
           = take (Suc (length w) - nat (max_messages s)) (w @ [\<lparr>role = r, content = c\<rparr>])
     \<and> full_history (snd (add_message r c s))
           = Some (drop (Suc (length w) - nat (max_messages s)) (w @ [\<lparr>role = r, content = c\<rparr>]))
     \<and> (fst (trim (max_messages s) (w @ [\<lparr>role = r, content = c\<rparr>])) = []
           \<longleftrightarrow> int (length (w @ [\<lparr>role = r, content = c\<rparr>])) \<le> max_messages s)
     \<and> full_history (add_messages [(''user'', ''a''), (''assistant'', ''b''), (''user'', ''c'')]
                        (ChatMemory_init 2 None None))
           = Some [\<lparr>role = ''assistant'', content = ''b''\<rparr>, \<lparr>role = ''user'', content = ''c''\<rparr>]"
proof -
  let ?xs = "w @ [\<lparr>role = r, content = c\<rparr>]"
  have a: "fst (trim (max_messages s) ?xs) = take (Suc (length w) - nat (max_messages s)) ?xs"
    by (simp add: trim_removed)
  have b: "full_history (snd (add_message r c s))
             = Some (drop (Suc (length w) - nat (max_messages s)) ?xs)"
    by (simp add: add_message_snd [OF assms])
  have c: "fst (trim (max_messages s) ?xs) = [] \<longleftrightarrow> int (length ?xs) \<le> max_messages s"
    unfolding a by auto
  have d: "full_history (add_messages [(''user'', ''a''), (''assistant'', ''b''), (''user'', ''c'')]
                        (ChatMemory_init 2 None None))
           = Some [\<lparr>role = ''assistant'', content = ''b''\<rparr>, \<lparr>role = ''user'', content = ''c''\<rparr>]"
    by (simp add: init_fresh add_messages_Cons add_messages_Nil add_message_snd)
  from a b c d show ?thesis by blast
qed

text \<open>The third call of the scenario, on the state the first two calls leave.\<close>

theorem add_message_fifo_witness:
  "fst (trim 2 ([\<lparr>role = ''user'', content = ''a''\<rparr>, \<lparr>role = ''assistant'', content = ''b''\<rparr>] @ [\<lparr>role = ''user'', content = ''c''\<rparr>])) = [\<lparr>role = ''user'', content = ''a''\<rparr>]
   \<and> full_history (snd (add_message ''user'' ''c''
        \<lparr>max_messages = 2, messages = Some [\<lparr>role = ''user'', content = ''a''\<rparr>, \<lparr>role = ''assistant'', content = ''b''\<rparr>], full_history = Some [\<lparr>role = ''user'', content = ''a''\<rparr>, \<lparr>role = ''assistant'', content = ''b''\<rparr>]\<rparr>))
     = Some [\<lparr>role = ''assistant'', content = ''b''\<rparr>, \<lparr>role = ''user'', content = ''c''\<rparr>]"
  using add_message_fifo [of
        "\<lparr>max_messages = 2, messages = Some [\<lparr>role = ''user'', content = ''a''\<rparr>, \<lparr>role = ''assistant'', content = ''b''\<rparr>], full_history = Some [\<lparr>role = ''user'', content = ''a''\<rparr>, \<lparr>role = ''assistant'', content = ''b''\<rparr>]\<rparr>"
        "[\<lparr>role = ''user'', content = ''a''\<rparr>, \<lparr>role = ''assistant'', content = ''b''\<rparr>]" "[\<lparr>role = ''user'', content = ''a''\<rparr>, \<lparr>role = ''assistant'', content = ''b''\<rparr>]" "''user''" "''c''"]
  by simp

section \<open>The context sent to the model\<close>

text \<open>
  C3, at an input where the code differs from the claim. A memory with bound 0 is
  constructed on a session whose lists hold one message (left there by a memory with
  bound 8). \<^verbatim>\<open>full_history[-0:]\<close> is \<^verbatim>\<open>full_history[0:]\<close>, the whole window, so
  \<^verbatim>\<open>get_context\<close> returns the system message followed by that message, where the last
  0 entries of the window are none.
\<close>

theorem get_context_zero_bound:
  "messages (snd (add_message ''user'' ''a'' (ChatMemory_init 8 None None))) = Some [\<lparr>role = ''user'', content = ''a''\<rparr>]
   \<and> full_history (snd (add_message ''user'' ''a'' (ChatMemory_init 8 None None))) = Some [\<lparr>role = ''user'', content = ''a''\<rparr>]
   \<and> max_messages (ChatMemory_init 0 (Some [\<lparr>role = ''user'', content = ''a''\<rparr>]) (Some [\<lparr>role = ''user'', content = ''a''\<rparr>])) = 0
   \<and> fst (get_context ''sys'' (ChatMemory_init 0 (Some [\<lparr>role = ''user'', content = ''a''\<rparr>]) (Some [\<lparr>role = ''user'', content = ''a''\<rparr>])))
       = Inr [\<lparr>role = ''system'', content = ''sys''\<rparr>, \<lparr>role = ''user'', content = ''a''\<rparr>]
   \<and> fst (get_context ''sys'' (ChatMemory_init 0 (Some [\<lparr>role = ''user'', content = ''a''\<rparr>]) (Some [\<lparr>role = ''user'', content = ''a''\<rparr>])))
       \<noteq> Inr (\<lparr>role = ''system'', content = ''sys''\<rparr> # drop (length [\<lparr>role = ''user'', content = ''a''\<rparr>] - nat 0) [\<lparr>role = ''user'', content = ''a''\<rparr>])"
  by (simp add: init_fresh add_message_snd ChatMemory_init_def initialize_session_def
      get_context_def slice_from_def)

section \<open>The window as a suffix of the displayed list\<close>

lemma window_step:
  "drop (Suc (length (drop (length d - k) d)) - k) (drop (length d - k) d @ [m])
     = drop (Suc (length d) - k) (d @ [m])"
proof (cases "length d \<le> k")
  case True
  then show ?thesis by simp
next
  case False
  then have lt: "k < length d" by simp
  show ?thesis
  proof (cases k)
    case 0
    then show ?thesis by simp
  next
    case (Suc j)
    with lt have "Suc (length d) - k = Suc (length d - k)" by simp
    moreover from lt have "Suc (length (drop (length d - k) d)) - k = 1" by simp
    ultimately show ?thesis using lt Suc by (simp add: drop_Suc drop_tl)
  qed
qed

lemma window_invariant_step:
  "window_invariant n s \<Longrightarrow> window_invariant n (apply_operation x s)"
proof (cases x)
  case Initialize
  assume "window_invariant n s"
  then show ?thesis using Initialize
    by (auto simp: window_invariant_def initialize_session_def split: option.splits)
next
  case (AddMessage r c)
  assume inv: "window_invariant n s"
  then obtain d where d: "messages s = Some d"
    and w: "full_history s = Some (drop (length d - nat n) d)" and n: "max_messages s = n"
    by (auto simp: window_invariant_def split: option.splits)
  have "snd (add_message r c s) =
      s\<lparr>messages := Some (d @ [\<lparr>role = r, content = c\<rparr>]),
        full_history := Some (drop (Suc (length d) - nat n) (d @ [\<lparr>role = r, content = c\<rparr>]))\<rparr>"
    unfolding add_message_snd [OF d w] n window_step ..
  then show ?thesis using AddMessage n
    by (simp add: window_invariant_def)
next
  case Clear
  assume "window_invariant n s"
  then show ?thesis using Clear
    by (auto simp: window_invariant_def clear_memory_def split: option.splits)
qed

lemma window_invariant_operations:
  "window_invariant n s \<Longrightarrow> window_invariant n (apply_operations ops s)"
  unfolding apply_operations_def
  by (induction ops arbitrary: s) (auto simp: window_invariant_step)

text \<open>
  C10. After every sequence of \<^verbatim>\<open>initialize_session\<close>, \<^verbatim>\<open>add_message\<close> and
  \<^verbatim>\<open>clear_memory\<close> calls on a memory constructed on a fresh session, both lists exist
  and the window is the suffix of the displayed list of length
  \<open>min (length displayed) max_messages\<close> (no entries when that is negative); when the
  displayed list has at most \<open>max_messages\<close> entries the two lists are equal, and when
  both are non-empty they have the same last entry.
\<close>

theorem window_suffix_of_displayed:
  "\<exists>d w. messages (apply_operations ops (ChatMemory_init n None None)) = Some d
     \<and> full_history (apply_operations ops (ChatMemory_init n None None)) = Some w
     \<and> w = drop (length d - nat (min (int (length d)) n)) d
     \<and> int (length w) = max 0 (min (int (length d)) n)
     \<and> (int (length d) \<le> n \<longrightarrow> w = d)
     \<and> (w \<noteq> [] \<and> d \<noteq> [] \<longrightarrow> last w = last d)"
proof -
  let ?s = "apply_operations ops (ChatMemory_init n None None)"
  have "window_invariant n (ChatMemory_init n None None)"
    by (simp add: init_fresh window_invariant_def)
  then have "window_invariant n ?s" by (rule window_invariant_operations)
  then obtain d where d: "messages ?s = Some d"
    and w: "full_history ?s = Some (drop (length d - nat n) d)"
    by (auto simp: window_invariant_def split: option.splits)
  have e: "length d - nat (min (int (length d)) n) = length d - nat n"
    by (simp add: min_def)
  have l: "int (length (drop (length d - nat n) d)) = max 0 (min (int (length d)) n)"
    by (auto simp: min_def max_def)
  have i: "int (length d) \<le> n \<longrightarrow> drop (length d - nat n) d = d"
    by auto
  have t: "drop (length d - nat n) d \<noteq> [] \<and> d \<noteq> []
             \<longrightarrow> last (drop (length d - nat n) d) = last d"
    by auto
  show ?thesis using d w e l i t by simp
qed

text \<open>
  The theorem at two sequences with bound 2: one that overflows the window, and one
  that clears and then stays within the bound.
\<close>

theorem window_suffix_of_displayed_witness:
  "messages (apply_operations [AddMessage ''user'' ''a'', Initialize,
               AddMessage ''assistant'' ''b'', AddMessage ''user'' ''c'']
               (ChatMemory_init 2 None None)) = Some [\<lparr>role = ''user'', content = ''a''\<rparr>, \<lparr>role = ''assistant'', content = ''b''\<rparr>, \<lparr>role = ''user'', content = ''c''\<rparr>]
   \<and> full_history (apply_operations [AddMessage ''user'' ''a'', Initialize,
               AddMessage ''assistant'' ''b'', AddMessage ''user'' ''c'']
               (ChatMemory_init 2 None None)) = Some [\<lparr>role = ''assistant'', content = ''b''\<rparr>, \<lparr>role = ''user'', content = ''c''\<rparr>]
   \<and> last [\<lparr>role = ''assistant'', content = ''b''\<rparr>, \<lparr>role = ''user'', content = ''c''\<rparr>] = last [\<lparr>role = ''user'', content = ''a''\<rparr>, \<lparr>role = ''assistant'', content = ''b''\<rparr>, \<lparr>role = ''user'', content = ''c''\<rparr>]
   \<and> messages (apply_operations [AddMessage ''user'' ''a'', Clear, AddMessage ''user'' ''c'']
               (ChatMemory_init 2 None None)) = Some [\<lparr>role = ''user'', content = ''c''\<rparr>]
   \<and> full_history (apply_operations [AddMessage ''user'' ''a'', Clear, AddMessage ''user'' ''c'']
               (ChatMemory_init 2 None None)) = Some [\<lparr>role = ''user'', content = ''c''\<rparr>]
   \<and> int (length [\<lparr>role = ''user'', content = ''c''\<rparr>]) \<le> 2"
  using window_suffix_of_displayed [of "[AddMessage ''user'' ''a'', Initialize,
               AddMessage ''assistant'' ''b'', AddMessage ''user'' ''c'']" 2]
    window_suffix_of_displayed [of "[AddMessage ''user'' ''a'', Clear, AddMessage ''user'' ''c'']" 2]
  by (simp add: apply_operations_def init_fresh add_message_snd initialize_session_def
      clear_memory_def)

section \<open>The chat turn\<close>

text \<open>
  When the window exists, \<^verbatim>\<open>get_context\<close> cannot raise, and a chat turn is decided by
  what the endpoint answers to the payload built from the context and the prompt.
\<close>

lemma query_deepseek_initialized:
  "full_history memory = Some fh \<Longrightarrow>
   query_deepseek prompt system_prompt memory model temperature post =
     (case post \<lparr>payload_model = model,
                  payload_messages =
                    (\<lparr>role = ''system'', content = system_prompt\<rparr>
                       # slice_from (- max_messages memory) fh)
                    @ [\<lparr>role = ''user'', content = prompt\<rparr>],
                  payload_temperature = temperature\<rparr> of
        RequestException \<Rightarrow> (Inr None, memory)
      | Returned resp \<Rightarrow>
          if 400 \<le> status_code resp \<and> status_code resp < 600 then (Inr None, memory)
          else if status_code resp = 200 then
            (case assistant_response (json resp) of
               Inl e \<Rightarrow> (Inl e, memory)
             | Inr reply \<Rightarrow>
                 (case add_message ''user'' prompt memory of
                    (Inl e, m1) \<Rightarrow> (Inl e, m1)
                  | (Inr _, m1) \<Rightarrow>
                      (case add_message ''assistant'' reply m1 of
                         (Inl e, m2) \<Rightarrow> (Inl e, m2)
                       | (Inr _, m2) \<Rightarrow> (Inr (Some (json resp)), m2))))
          else (Inr None, memory))"
  by (simp add: query_deepseek_def get_context_def)

text \<open>
  C6. In a chat turn on a memory whose window exists, when the request fails (the
  transport raises, or the endpoint answers with a status other than 200) the memory
  is left as it was, displayed list and window included, and the call returns
  \<^verbatim>\<open>None\<close>.
\<close>

theorem query_deepseek_failure:
  assumes "full_history memory = Some fh"
    and "post \<lparr>payload_model = model,
                payload_messages =
                  (\<lparr>role = ''system'', content = system_prompt\<rparr>
                     # slice_from (- max_messages memory) fh)
                  @ [\<lparr>role = ''user'', content = prompt\<rparr>],
                payload_temperature = temperature\<rparr> = outcome"
    and "outcome = RequestException
         \<or> (\<exists>resp. outcome = Returned resp \<and> status_code resp \<noteq> 200)"
  shows "query_deepseek prompt system_prompt memory model temperature post = (Inr None, memory)"
  using assms(2,3) by (auto simp: query_deepseek_initialized [OF assms(1)])

text \<open>
  The theorem at a memory holding one exchange: a transport failure, a status 500
  (raised by \<^verbatim>\<open>raise_for_status\<close>) and a status 204 (which falls through).
\<close>

theorem query_deepseek_failure_witness:
  "query_deepseek ''hi'' ''sys''
      \<lparr>max_messages = 8, messages = Some [\<lparr>role = ''user'', content = ''a''\<rparr>, \<lparr>role = ''assistant'', content = ''b''\<rparr>], full_history = Some [\<lparr>role = ''user'', content = ''a''\<rparr>, \<lparr>role = ''assistant'', content = ''b''\<rparr>]\<rparr>
      ''deepseek-chat'' 0.7 (\<lambda>p. RequestException)
     = (Inr None, \<lparr>max_messages = 8, messages = Some [\<lparr>role = ''user'', content = ''a''\<rparr>, \<lparr>role = ''assistant'', content = ''b''\<rparr>], full_history = Some [\<lparr>role = ''user'', content = ''a''\<rparr>, \<lparr>role = ''assistant'', content = ''b''\<rparr>]\<rparr>)
   \<and> query_deepseek ''hi'' ''sys''
      \<lparr>max_messages = 8, messages = Some [\<lparr>role = ''user'', content = ''a''\<rparr>, \<lparr>role = ''assistant'', content = ''b''\<rparr>], full_history = Some [\<lparr>role = ''user'', content = ''a''\<rparr>, \<lparr>role = ''assistant'', content = ''b''\<rparr>]\<rparr>
      ''deepseek-chat'' 0.7 (\<lambda>p. Returned \<lparr>status_code = 500, json = \<lparr>choices = None\<rparr>\<rparr>)
     = (Inr None, \<lparr>max_messages = 8, messages = Some [\<lparr>role = ''user'', content = ''a''\<rparr>, \<lparr>role = ''assistant'', content = ''b''\<rparr>], full_history = Some [\<lparr>role = ''user'', content = ''a''\<rparr>, \<lparr>role = ''assistant'', content = ''b''\<rparr>]\<rparr>)
   \<and> query_deepseek ''hi'' ''sys''
      \<lparr>max_messages = 8, messages = Some [\<lparr>role = ''user'', content = ''a''\<rparr>, \<lparr>role = ''assistant'', content = ''b''\<rparr>], full_history = Some [\<lparr>role = ''user'', content = ''a''\<rparr>, \<lparr>role = ''assistant'', content = ''b''\<rparr>]\<rparr>
      ''deepseek-chat'' 0.7 (\<lambda>p. Returned \<lparr>status_code = 204, json = \<lparr>choices = None\<rparr>\<rparr>)
     = (Inr None, \<lparr>max_messages = 8, messages = Some [\<lparr>role = ''user'', content = ''a''\<rparr>, \<lparr>role = ''assistant'', content = ''b''\<rparr>], full_history = Some [\<lparr>role = ''user'', content = ''a''\<rparr>, \<lparr>role = ''assistant'', content = ''b''\<rparr>]\<rparr>)"
  using
    query_deepseek_failure [where memory = "\<lparr>max_messages = 8, messages = Some [\<lparr>role = ''user'', content = ''a''\<rparr>, \<lparr>role = ''assistant'', content = ''b''\<rparr>], full_history = Some [\<lparr>role = ''user'', content = ''a''\<rparr>, \<lparr>role = ''assistant'', content = ''b''\<rparr>]\<rparr>"
      and fh = "[\<lparr>role = ''user'', content = ''a''\<rparr>, \<lparr>role = ''assistant'', content = ''b''\<rparr>]" and post = "\<lambda>p. RequestException" and model = "''deepseek-chat''"
      and system_prompt = "''sys''" and prompt = "''hi''" and temperature = "0.7"
      and outcome = "RequestException"]
    query_deepseek_failure [where memory = "\<lparr>max_messages = 8, messages = Some [\<lparr>role = ''user'', content = ''a''\<rparr>, \<lparr>role = ''assistant'', content = ''b''\<rparr>], full_history = Some [\<lparr>role = ''user'', content = ''a''\<rparr>, \<lparr>role = ''assistant'', content = ''b''\<rparr>]\<rparr>"
      and fh = "[\<lparr>role = ''user'', content = ''a''\<rparr>, \<lparr>role = ''assistant'', content = ''b''\<rparr>]" and post = "\<lambda>p. Returned \<lparr>status_code = 500, json = \<lparr>choices = None\<rparr>\<rparr>" and model = "''deepseek-chat''"
      and system_prompt = "''sys''" and prompt = "''hi''" and temperature = "0.7"
      and outcome = "Returned \<lparr>status_code = 500, json = \<lparr>choices = None\<rparr>\<rparr>"]
    query_deepseek_failure [where memory = "\<lparr>max_messages = 8, messages = Some [\<lparr>role = ''user'', content = ''a''\<rparr>, \<lparr>role = ''assistant'', content = ''b''\<rparr>], full_history = Some [\<lparr>role = ''user'', content = ''a''\<rparr>, \<lparr>role = ''assistant'', content = ''b''\<rparr>]\<rparr>"
      and fh = "[\<lparr>role = ''user'', content = ''a''\<rparr>, \<lparr>role = ''assistant'', content = ''b''\<rparr>]" and post = "\<lambda>p. Returned \<lparr>status_code = 204, json = \<lparr>choices = None\<rparr>\<rparr>" and model = "''deepseek-chat''"
      and system_prompt = "''sys''" and prompt = "''hi''" and temperature = "0.7"
      and outcome = "Returned \<lparr>status_code = 204, json = \<lparr>choices = None\<rparr>\<rparr>"]
  by simp



text \<open>
  What line 106 reads from the body: the empty string when the \<^verbatim>\<open>choices\<close> key, the
  \<^verbatim>\<open>message\<close> key of the first choice or the \<^verbatim>\<open>content\<close> key of its message is
  missing, the content when it is there, and an \<^verbatim>\<open>IndexError\<close> exactly when
  \<^verbatim>\<open>choices\<close> is present and empty.
\<close>

lemma assistant_response_cases:
  "assistant_response \<lparr>choices = None\<rparr> = Inr ''''"
  "assistant_response \<lparr>choices = Some []\<rparr> = Inl IndexError"
  "assistant_response \<lparr>choices = Some (ChoiceJson None # cs)\<rparr> = Inr ''''"
  "assistant_response \<lparr>choices = Some (ChoiceJson (Some (MessageJson None)) # cs)\<rparr> = Inr ''''"
  "assistant_response \<lparr>choices = Some (ChoiceJson (Some (MessageJson (Some c))) # cs)\<rparr> = Inr c"
  by (simp_all add: assistant_response_def)






section \<open>The file extractor\<close>

lemma processed_content_map_filter: "processed_content fs = List.map_filter process_file fs"
  by (induction fs) (auto split: option.splits)

text \<open>
  C9 (as amended). For every file that is processed successfully, the string produced
  is the provenance tag, a colon, the file name, a colon and a space, the first at most
  1000 characters of the text extracted from that file, and three dots. For the type
  \<open>application/pdf\<close> the tag is \<open>PDF_CONTENT\<close> and the text is the concatenation of
  the texts of the pages; otherwise the tag is \<open>FILE_CONTENT\<close> and the text is the
  decoded content. The cap of 1000 characters is on the excerpt: the whole string has
  the length of the tag, of the name and of the excerpt, plus 6. The strings of the
  files that succeed are joined with newlines, in the order of the files.
\<close>

theorem process_file_shape:
  "(process_file f = Some s \<longrightarrow>
      (\<exists>tag text.
         (tag = ''PDF_CONTENT'' \<and> file_type f = ''application/pdf''
              \<and> (\<exists>ps. pdf_pages f = Some ps \<and> text = pages_text ps)
            \<or> tag = ''FILE_CONTENT'' \<and> file_type f \<noteq> ''application/pdf''
              \<and> decoded f = Some text)
         \<and> s = tag @ '':'' @ file_name f @ '': '' @ take 1000 text @ ''...''
         \<and> length (take 1000 text) \<le> 1000
         \<and> length s = length tag + length (file_name f) + 6 + min 1000 (length text)))
   \<and> process_uploaded_files fs = join [CHR 0x0A] (List.map_filter process_file fs)"
proof -
  have "(\<exists>tag text.
         (tag = ''PDF_CONTENT'' \<and> file_type f = ''application/pdf''
              \<and> (\<exists>ps. pdf_pages f = Some ps \<and> text = pages_text ps)
            \<or> tag = ''FILE_CONTENT'' \<and> file_type f \<noteq> ''application/pdf''
              \<and> decoded f = Some text)
         \<and> s = tag @ '':'' @ file_name f @ '': '' @ take 1000 text @ ''...''
         \<and> length (take 1000 text) \<le> 1000
         \<and> length s = length tag + length (file_name f) + 6 + min 1000 (length text))"
    if "process_file f = Some s"
  proof (cases "file_type f = ''application/pdf''")
    case True
    with that obtain ps where ps: "pdf_pages f = Some ps"
      and s: "s = ''PDF_CONTENT'' @ '':'' @ file_name f @ '': ''
                 @ take 1000 (pages_text ps) @ ''...''"
      by (auto simp: process_file_def MAX_FILE_CONTENT_def split: option.splits)
    have "length s = length ''PDF_CONTENT'' + length (file_name f) + 6
                       + min 1000 (length (pages_text ps))"
      unfolding s by (simp add: min.commute)
    with True ps s show ?thesis by (intro exI [of _ "''PDF_CONTENT''"] exI [of _ "pages_text ps"]) simp
  next
    case False
    with that obtain c where c: "decoded f = Some c"
      and s: "s = ''FILE_CONTENT'' @ '':'' @ file_name f @ '': ''
                 @ take 1000 c @ ''...''"
      by (auto simp: process_file_def MAX_FILE_CONTENT_def split: option.splits)
    have "length s = length ''FILE_CONTENT'' + length (file_name f) + 6 + min 1000 (length c)"
      unfolding s by (simp add: min.commute)
    with False c s show ?thesis by (intro exI [of _ "''FILE_CONTENT''"] exI [of _ c]) simp
  qed
  then show ?thesis
    by (simp add: process_uploaded_files_def processed_content_map_filter)
qed

text \<open>
  The theorem at three files: a text file, a file whose decoding raises (skipped), and
  a PDF of three pages, one without text.
\<close>

theorem process_file_shape_witness:
  "process_file \<lparr>file_name = ''f.txt'', file_type = ''text/plain'', pdf_pages = None,
                  decoded = Some ''hello''\<rparr> = Some ''FILE_CONTENT:f.txt: hello...''
   \<and> process_uploaded_files
        [\<lparr>file_name = ''f.txt'', file_type = ''text/plain'', pdf_pages = None,
          decoded = Some ''hello''\<rparr>,
         \<lparr>file_name = ''bad.bin'', file_type = ''application/octet-stream'', pdf_pages = None,
          decoded = None\<rparr>,
         \<lparr>file_name = ''p.pdf'', file_type = ''application/pdf'',
          pdf_pages = Some [Some ''one'', None, Some ''two''], decoded = None\<rparr>]
      = ''FILE_CONTENT:f.txt: hello...'' @ [CHR 0x0A] @ ''PDF_CONTENT:p.pdf: onetwo...''"
  using process_file_shape [where f = "\<lparr>file_name = ''f.txt'', file_type = ''text/plain'', pdf_pages = None,
        decoded = Some ''hello''\<rparr>"
      and s = "''FILE_CONTENT:f.txt: hello...''"
      and fs = "[\<lparr>file_name = ''f.txt'', file_type = ''text/plain'', pdf_pages = None,
          decoded = Some ''hello''\<rparr>,
         \<lparr>file_name = ''bad.bin'', file_type = ''application/octet-stream'', pdf_pages = None,
          decoded = None\<rparr>,
         \<lparr>file_name = ''p.pdf'', file_type = ''application/pdf'',
          pdf_pages = Some [Some ''one'', None, Some ''two''], decoded = None\<rparr>]"]
  by (simp add: process_file_def process_uploaded_files_def MAX_FILE_CONTENT_def)

text \<open>
  The claim as stated fails: a text file of 1000 characters is processed successfully,
  and the string produced for it has 1023 characters, more than the cap.
\<close>

theorem process_file_cap_counterexample:
  "process_file \<lparr>file_name = ''f.txt'', file_type = ''text/plain'', pdf_pages = None,
                  decoded = Some (replicate 1000 CHR ''a'')\<rparr>
     = Some (''FILE_CONTENT:f.txt: '' @ replicate 1000 CHR ''a'' @ ''...'')
   \<and> length (process_uploaded_files
        [\<lparr>file_name = ''f.txt'', file_type = ''text/plain'', pdf_pages = None,
          decoded = Some (replicate 1000 CHR ''a'')\<rparr>]) = 1023
   \<and> \<not> length (process_uploaded_files
        [\<lparr>file_name = ''f.txt'', file_type = ''text/plain'', pdf_pages = None,
          decoded = Some (replicate 1000 CHR ''a'')\<rparr>]) \<le> MAX_FILE_CONTENT"
  by (simp add: process_file_def process_uploaded_files_def MAX_FILE_CONTENT_def)

end
